theory Spec2Isabelle
  imports Main
begin

section \<open>Session routing of the MCP endpoint (src/main.ts)\<close>

text \<open>
  The program is one TypeScript module for the Deno runtime. It keeps a process-wide
  object \<open>transports.streamable\<close> from session identifiers to transports, registers an
  echo tool and an echo resource on one shared \<open>McpServer\<close>, and routes POST, GET and
  DELETE on \<open>/mcp\<close>. The transport class, the server class, \<open>isInitializeRequest\<close> and
  \<open>crypto.randomUUID\<close> belong to libraries and to the runtime; they are parameters of the
  model (record \<open>env\<close>).
\<close>

subsection \<open>JSON values and the synthesized handshake (lines 135-154)\<close>

datatype json =
    JNull
  | JBool bool
  | JNum int
  | JStr string
  | JArr "json list"
  | JObj "(string \<times> json) list"

definition synthesizedInitialize :: json where
  "synthesizedInitialize =
     JArr [JObj
       [(''jsonrpc'', JStr ''2.0''),
        (''id'', JNum 1),
        (''method'', JStr ''initialize''),
        (''params'', JObj
           [(''protocolVersion'', JStr ''2024-11-05''),
            (''capabilities'', JObj
               [(''roots'', JObj [(''listChanged'', JBool True)]),
                (''sampling'', JObj []),
                (''elicitation'', JObj [])]),
            (''clientInfo'', JObj
               [(''name'', JStr ''ExampleClient''),
                (''title'', JStr ''Example Client Display Name''),
                (''version'', JStr ''1.0.0'')])])]]"

subsection \<open>Capability handlers (lines 47-72)\<close>

record tool_content =
  contentType :: string
  contentText :: string

record resource_content =
  contentUri :: string
  resourceText :: string

text \<open>The tool callback: \<open>async ({ message }) => ({ content: [{ type: "text", text: `Tool echo: ${message}` }] })\<close>.\<close>

definition echoTool :: "string \<Rightarrow> tool_content list" where
  "echoTool message = [\<lparr>contentType = ''text'', contentText = ''Tool echo: '' @ message\<rparr>]"

text \<open>
  The resource callback receives the requested URI and the variables the template
  \<open>echo://{message}\<close> bound: \<open>async (uri, { message }) => ({ contents: [{ uri: uri.href, text: `Resource echo: ${message}` }] })\<close>.
\<close>

definition echoResource :: "string \<Rightarrow> string \<Rightarrow> resource_content list" where
  "echoResource href message = [\<lparr>contentUri = href, resourceText = ''Resource echo: '' @ message\<rparr>]"

text \<open>
  Reading a resource is the library's: it parses the requested URI with \<open>new URL\<close>,
  matches the result against the registered template, and calls the callback with the
  variables the match bound. The template \<open>echo://{message}\<close> has one plain variable,
  which stands for one or more characters other than \<open>/\<close> and \<open>,\<close>; a URI it does not
  match names no resource, since no other resource is registered. The URL parser is a
  parameter: \<open>None\<close> when the constructor throws, the normalised URI otherwise.
\<close>

definition matchEchoTemplate :: "string \<Rightarrow> string option" where
  "matchEchoTemplate uri =
     (if take 7 uri = ''echo://'' \<and> drop 7 uri \<noteq> [] \<and>
         CHR ''/'' \<notin> set (drop 7 uri) \<and> CHR '','' \<notin> set (drop 7 uri)
      then Some (drop 7 uri) else None)"

datatype read_error = InvalidUrl | ResourceNotFound

definition readResource ::
  "(string \<Rightarrow> string option) \<Rightarrow> string \<Rightarrow> read_error + resource_content list" where
  "readResource parseUrl uri =
     (case parseUrl uri of
        None \<Rightarrow> Inl InvalidUrl
      | Some href \<Rightarrow>
          (case matchEchoTemplate href of
             None \<Rightarrow> Inl ResourceNotFound
           | Some message \<Rightarrow> Inr (echoResource href message)))"

subsection \<open>Requests, transports and the process state\<close>

datatype http_method = POST | GET | DELETE

record request =
  httpMethod :: http_method
  mcpSessionId :: "string option"  \<comment> \<open>\<open>req.headers["mcp-session-id"]\<close>, \<open>None\<close> for \<open>undefined\<close>\<close>
  body :: json                     \<comment> \<open>\<open>req.body\<close>\<close>

type_synonym tid = nat

text \<open>
  A transport object: the \<open>sessionId\<close> argument of \<open>setupSession\<close> that its closures
  captured, and its own property \<open>transport.sessionId\<close>, undefined until the library
  assigns it.
\<close>

record transport =
  closureSessionId :: "string option"
  sessionId :: "string option"

text \<open>
  The mutable state of the module: the own properties of \<open>transports.streamable\<close>, the
  transports constructed so far (a store indexed by identity), the transport last
  passed to \<open>server.connect\<close> and not yet forgotten by the server, the number of
  \<open>server.close()\<close> calls on the one shared server, the number of close cascades that
  exhausted the call stack (each ends in a RangeError, which rejects the promise of a
  \<open>server.close()\<close> call that nobody awaits), the number of \<open>crypto.randomUUID()\<close> calls,
  and the calls of \<open>transport.handleRequest\<close> in order, each with its \<open>parsedBody\<close>
  argument.
\<close>

record state =
  streamable :: "string \<rightharpoonup> tid"
  heap :: "tid \<Rightarrow> transport"
  nextId :: tid
  serverTransport :: "tid option"
  serverCloseCalls :: nat
  rangeErrors :: nat
  uuidDraws :: nat
  handled :: "(tid \<times> json option) list"

definition initialState :: state where
  "initialState =
     \<lparr>streamable = Map.empty,
      heap = (\<lambda>_. \<lparr>closureSessionId = None, sessionId = None\<rparr>),
      nextId = 0,
      serverTransport = None,
      serverCloseCalls = 0,
      rangeErrors = 0,
      uuidDraws = 0,
      handled = []\<rparr>"

subsection \<open>What the libraries and the runtime decide\<close>

text \<open>
  During one \<open>handleRequest\<close> call the library may complete the handshake (it then calls
  \<open>sessionIdGenerator\<close>, stores the result in \<open>transport.sessionId\<close> and calls
  \<open>onsessioninitialized\<close> with it), may fire the close event of the transport, and may
  throw.

  \<open>server.connect(transport)\<close> makes the transport the server's own and wraps the
  transport's \<open>onclose\<close>: the close event runs the callback of line 99 and then lets
  the server forget its transport. \<open>server.close()\<close> closes the transport the server
  holds at that moment, if it holds one, which fires that transport's close event
  inside the call. The call stack holds \<open>stackDepth\<close> such nested close events.
\<close>

datatype sdk_event = SessionInitialized | TransportClosed

record sdk_result =
  events :: "sdk_event list"
  throws :: bool

record env =
  proper404Client :: bool  \<comment> \<open>line 23, from the process environment\<close>
  isInitializeRequest :: "json \<Rightarrow> bool"
  randomUUID :: "nat \<Rightarrow> string"  \<comment> \<open>the n-th result of \<open>crypto.randomUUID()\<close>\<close>
  inheritedKey :: "string \<Rightarrow> bool"
    \<comment> \<open>the property names every plain object inherits from \<open>Object.prototype\<close>\<close>
  connectFails :: "state \<Rightarrow> tid \<Rightarrow> bool"  \<comment> \<open>whether \<open>server.connect(transport)\<close> rejects\<close>
  stackDepth :: nat  \<comment> \<open>how many nested close events fit on the call stack\<close>
  transportBehaviour :: "transport \<Rightarrow> request \<Rightarrow> json option \<Rightarrow> sdk_result"

subsection \<open>Reading \<open>transports.streamable[sessionId]\<close>\<close>

text \<open>
  \<open>transports.streamable\<close> is created by the literal \<open>{}\<close> (line 30), so a read finds an
  own property first and an inherited one otherwise; every inherited value (a function,
  or the prototype itself for \<open>__proto__\<close>) is truthy and has no \<open>handleRequest\<close> method. An assignment creates or
  replaces an own property and \<open>delete\<close> removes one, if there is one; the handlers never
  assign under an inherited name, since an identifier reaches \<open>setupSession\<close> only after
  the read of line 121 found nothing. The second object,
  \<open>transports.sse\<close>, is never read or written.
\<close>

datatype jsval = Undefined | TransportRef tid | InheritedValue

definition lookupStreamable :: "env \<Rightarrow> state \<Rightarrow> string \<Rightarrow> jsval" where
  "lookupStreamable e s k =
     (case streamable s k of
        Some t \<Rightarrow> TransportRef t
      | None \<Rightarrow> if inheritedKey e k then InheritedValue else Undefined)"

fun truthyValue :: "jsval \<Rightarrow> bool" where
  "truthyValue Undefined = False"
| "truthyValue (TransportRef t) = True"
| "truthyValue InheritedValue = True"

text \<open>Truthiness of a \<open>string | undefined\<close>: the empty string is falsy.\<close>

fun truthy :: "string option \<Rightarrow> bool" where
  "truthy None = False"
| "truthy (Some sid) = (sid \<noteq> [])"

subsection \<open>The closures of \<open>setupSession\<close> (lines 85-105)\<close>

text \<open>\<open>sessionIdGenerator: () => sessionId || crypto.randomUUID()\<close>\<close>

definition sessionIdGenerator :: "env \<Rightarrow> string option \<Rightarrow> state \<Rightarrow> string \<times> state" where
  "sessionIdGenerator e sid s =
     (case sid of
        Some x \<Rightarrow>
          if x \<noteq> [] then (x, s)
          else (randomUUID e (uuidDraws s), s\<lparr>uuidDraws := Suc (uuidDraws s)\<rparr>)
      | None \<Rightarrow> (randomUUID e (uuidDraws s), s\<lparr>uuidDraws := Suc (uuidDraws s)\<rparr>))"

text \<open>\<open>onsessioninitialized: (sessionId) => { transports.streamable[sessionId] = transport; }\<close>\<close>

definition onsessioninitialized :: "tid \<Rightarrow> string \<Rightarrow> state \<Rightarrow> state" where
  "onsessioninitialized t sid s = s\<lparr>streamable := (streamable s)(sid \<mapsto> t)\<rparr>"

text \<open>Lines 100-102: \<open>if (transport.sessionId) delete transports.streamable[transport.sessionId]\<close>.\<close>

definition removeSession :: "tid \<Rightarrow> state \<Rightarrow> state" where
  "removeSession t s =
     (case sessionId (heap s t) of
        Some sid \<Rightarrow> if sid \<noteq> [] then s\<lparr>streamable := (streamable s)(sid := None)\<rparr> else s
      | None \<Rightarrow> s)"

text \<open>
  \<open>transport.onclose\<close> (lines 99-105) with room for \<open>n\<close> nested close events on the stack:
  the entry is deleted, then \<open>server.close()\<close> is called and not awaited, then a line is
  logged. When the server holds a transport \<open>u\<close>, that call fires the close event of \<open>u\<close>
  before it returns: the callback of \<open>u\<close> runs, calls \<open>server.close()\<close> in turn while the
  server still holds \<open>u\<close>, and only after the callback has returned does the server
  forget \<open>u\<close>. So the nesting never ends by itself; it ends when the stack is full, with
  a RangeError inside the innermost \<open>server.close()\<close>.
\<close>

fun onclose :: "nat \<Rightarrow> tid \<Rightarrow> state \<Rightarrow> state" where
  "onclose 0 t s =
     (let s1 = removeSession t s;
          s2 = s1\<lparr>serverCloseCalls := Suc (serverCloseCalls s1)\<rparr>
      in case serverTransport s2 of
           None \<Rightarrow> s2
         | Some u \<Rightarrow> s2\<lparr>rangeErrors := Suc (rangeErrors s2)\<rparr>)"
| "onclose (Suc n) t s =
     (let s1 = removeSession t s;
          s2 = s1\<lparr>serverCloseCalls := Suc (serverCloseCalls s1)\<rparr>
      in case serverTransport s2 of
           None \<Rightarrow> s2
         | Some u \<Rightarrow> (onclose n u s2)\<lparr>serverTransport := None\<rparr>)"

text \<open>
  The close event of transport \<open>t\<close>, fired from the event loop: the callback, then the
  server forgets its transport.
\<close>

definition closeEvent :: "env \<Rightarrow> tid \<Rightarrow> state \<Rightarrow> state" where
  "closeEvent e t s = (onclose (stackDepth e) t s)\<lparr>serverTransport := None\<rparr>"

text \<open>
  The library's handshake completion on transport \<open>t\<close>:
  \<open>this.sessionId = this.sessionIdGenerator(); this._onsessioninitialized(this.sessionId)\<close>.
\<close>

definition sessionInitialized :: "env \<Rightarrow> tid \<Rightarrow> state \<Rightarrow> state" where
  "sessionInitialized e t s =
     (case sessionIdGenerator e (closureSessionId (heap s t)) s of
        (sid, s1) \<Rightarrow>
          onsessioninitialized t sid
            (s1\<lparr>heap := (heap s1)(t := (heap s1 t)\<lparr>sessionId := Some sid\<rparr>)\<rparr>))"

fun fire :: "env \<Rightarrow> tid \<Rightarrow> state \<Rightarrow> sdk_event \<Rightarrow> state" where
  "fire e t s SessionInitialized = sessionInitialized e t s"
| "fire e t s TransportClosed = closeEvent e t s"

text \<open>
  One call \<open>transport.handleRequest(req, res, parsedBody)\<close>: the call is recorded, the
  callbacks the library invokes run in order, and the result says whether the call
  threw.
\<close>

definition handleRequest :: "env \<Rightarrow> tid \<Rightarrow> request \<Rightarrow> json option \<Rightarrow> state \<Rightarrow> bool \<times> state" where
  "handleRequest e t req parsedBody s =
     (let r = transportBehaviour e (heap s t) req parsedBody;
          s1 = s\<lparr>handled := handled s @ [(t, parsedBody)]\<rparr>
      in (throws r, foldl (fire e t) s1 (events r)))"

subsection \<open>\<open>setupSession\<close> (lines 74-111)\<close>

datatype error = TypeError | ConnectError | TransportError

definition setupSession :: "env \<Rightarrow> string option \<Rightarrow> state \<Rightarrow> (error + tid) \<times> state" where
  "setupSession e sid s =
     (let t = nextId s;
          s1 = s\<lparr>heap := (heap s)(t := \<lparr>closureSessionId = sid, sessionId = None\<rparr>),
                 nextId := Suc t\<rparr>
      in if connectFails e s1 t then (Inl ConnectError, s1)
         else (Inr t, s1\<lparr>serverTransport := Some t\<rparr>))"

subsection \<open>The handlers (lines 114-209)\<close>

datatype response =
    Status404 string  \<comment> \<open>\<open>res.status(404).send(...)\<close>\<close>
  | Delegated tid     \<comment> \<open>the last \<open>handleRequest\<close> call on this transport returned\<close>
  | Rejected error    \<comment> \<open>the handler's promise rejected\<close>

definition deliver :: "env \<Rightarrow> tid \<Rightarrow> request \<Rightarrow> json option \<Rightarrow> state \<Rightarrow> response \<times> state" where
  "deliver e t req parsedBody s =
     (case handleRequest e t req parsedBody s of
        (failed, s1) \<Rightarrow> (if failed then Rejected TransportError else Delegated t, s1))"

definition post :: "env \<Rightarrow> request \<Rightarrow> state \<Rightarrow> response \<times> state" where
  "post e req s =
     (let sid = mcpSessionId req;
          found = (case sid of Some k \<Rightarrow> lookupStreamable e s k | None \<Rightarrow> Undefined)
      in if truthy sid \<and> truthyValue found then
           (case found of
              TransportRef t \<Rightarrow> deliver e t req (Some (body req)) s
            | _ \<Rightarrow> (Rejected TypeError, s))
         else if truthy sid \<and> \<not> truthyValue found \<and> proper404Client e then
           (Status404 (''sessionId '' @ (case sid of Some k \<Rightarrow> k | None \<Rightarrow> []) @ '' not found''), s)
         else if isInitializeRequest e (body req) then
           (case setupSession e sid s of
              (Inl err, s1) \<Rightarrow> (Rejected err, s1)
            | (Inr t, s1) \<Rightarrow> deliver e t req (Some (body req)) s1)
         else
           (case setupSession e sid s of
              (Inl err, s1) \<Rightarrow> (Rejected err, s1)
            | (Inr t, s1) \<Rightarrow>
                (case handleRequest e t req (Some synthesizedInitialize) s1 of
                   (failed, s2) \<Rightarrow>
                     if failed then (Rejected TransportError, s2)
                     else deliver e t req (Some (body req)) s2)))"

definition handleSessionRequest :: "env \<Rightarrow> request \<Rightarrow> state \<Rightarrow> response \<times> state" where
  "handleSessionRequest e req s =
     (let sid = mcpSessionId req;
          found = (case sid of Some k \<Rightarrow> lookupStreamable e s k | None \<Rightarrow> Undefined)
      in if \<not> truthy sid \<or> \<not> truthyValue found then
           (Status404 ''Invalid or missing session ID'', s)
         else
           (case found of
              TransportRef t \<Rightarrow> deliver e t req None s
            | _ \<Rightarrow> (Rejected TypeError, s)))"

text \<open>
  The requests for which \<open>app.post\<close> reaches one of its two \<open>setupSession\<close> calls: the
  first two branches (lines 121 and 125) are not taken.
\<close>

definition bootstraps :: "env \<Rightarrow> request \<Rightarrow> state \<Rightarrow> bool" where
  "bootstraps e req s \<longleftrightarrow>
     (case mcpSessionId req of
        None \<Rightarrow> True
      | Some k \<Rightarrow> k = [] \<or> (lookupStreamable e s k = Undefined \<and> \<not> proper404Client e))"

text \<open>\<open>app.post\<close>, \<open>app.get\<close>, \<open>app.delete\<close> on \<open>/mcp\<close>.\<close>

definition route :: "env \<Rightarrow> request \<Rightarrow> state \<Rightarrow> response \<times> state" where
  "route e req s =
     (case httpMethod req of
        POST \<Rightarrow> post e req s
      | GET \<Rightarrow> handleSessionRequest e req s
      | DELETE \<Rightarrow> handleSessionRequest e req s)"

subsection \<open>Runs of the process\<close>

text \<open>
  The process handles HTTP requests one after the other; a close event may also reach a
  transport between two requests, when its connection drops.
\<close>

datatype event = Http request | CloseEvent tid

fun step :: "env \<Rightarrow> state \<Rightarrow> event \<Rightarrow> state" where
  "step e s (Http req) = snd (route e req s)"
| "step e s (CloseEvent t) = closeEvent e t s"

definition run :: "env \<Rightarrow> event list \<Rightarrow> state" where
  "run e evs = foldl (step e) initialState evs"

text \<open>
  What every state of a run satisfies when \<open>crypto.randomUUID()\<close> never returns the empty
  string: the registry is finite, it has no entry under the empty string, and no
  transport carries the empty string as its identifier.
\<close>

definition nonEmptyUUIDs :: "env \<Rightarrow> bool" where
  "nonEmptyUUIDs e \<longleftrightarrow> (\<forall>n. randomUUID e n \<noteq> [])"

definition stateInv :: "state \<Rightarrow> bool" where
  "stateInv s \<longleftrightarrow>
     finite (dom (streamable s)) \<and> [] \<notin> dom (streamable s) \<and>
     (\<forall>t. sessionId (heap s t) \<noteq> Some [])"

subsection \<open>A concrete environment\<close>

text \<open>
  The theorems below hold for every environment. The closed instances need one: the
  property names of \<open>Object.prototype\<close>, a stack of a thousand frames, a reading of the
  library's
  \<open>InitializeRequestSchema\<close>, and a transport that completes the handshake on the
  first initialize message it is handed and closes on DELETE.
\<close>

definition objectPrototypeKeys :: "string list" where
  "objectPrototypeKeys =
     [''constructor'', ''hasOwnProperty'', ''isPrototypeOf'', ''propertyIsEnumerable'',
      ''toLocaleString'', ''toString'', ''valueOf'', ''__defineGetter__'',
      ''__defineSetter__'', ''__lookupGetter__'', ''__lookupSetter__'', ''__proto__'']"

definition isObject :: "json option \<Rightarrow> bool" where
  "isObject j = (case j of Some (JObj kvs) \<Rightarrow> True | _ \<Rightarrow> False)"

definition isString :: "json option \<Rightarrow> bool" where
  "isString j = (case j of Some (JStr x) \<Rightarrow> True | _ \<Rightarrow> False)"

definition initializeShaped :: "json \<Rightarrow> bool" where
  "initializeShaped j =
     (case j of
        JObj kvs \<Rightarrow>
          map_of kvs ''jsonrpc'' = Some (JStr ''2.0'') \<and>
          map_of kvs ''method'' = Some (JStr ''initialize'') \<and>
          (case map_of kvs ''id'' of Some (JNum n) \<Rightarrow> True | Some (JStr x) \<Rightarrow> True | _ \<Rightarrow> False) \<and>
          (case map_of kvs ''params'' of
             Some (JObj ps) \<Rightarrow>
               isString (map_of ps ''protocolVersion'') \<and>
               isObject (map_of ps ''capabilities'') \<and>
               isObject (map_of ps ''clientInfo'')
           | _ \<Rightarrow> False)
      | _ \<Rightarrow> False)"

definition carriesInitialize :: "json option \<Rightarrow> bool" where
  "carriesInitialize parsedBody =
     (case parsedBody of
        Some (JArr ms) \<Rightarrow> list_ex initializeShaped ms
      | Some m \<Rightarrow> initializeShaped m
      | None \<Rightarrow> False)"

definition sampleTransport :: "transport \<Rightarrow> request \<Rightarrow> json option \<Rightarrow> sdk_result" where
  "sampleTransport tr req parsedBody =
     (case httpMethod req of
        POST \<Rightarrow>
          \<lparr>events = (if sessionId tr = None \<and> carriesInitialize parsedBody
                     then [SessionInitialized] else []),
           throws = False\<rparr>
      | GET \<Rightarrow> \<lparr>events = [], throws = False\<rparr>
      | DELETE \<Rightarrow> \<lparr>events = [TransportClosed], throws = False\<rparr>)"

definition sampleUUID :: "nat \<Rightarrow> string" where
  "sampleUUID n = ''uuid-'' @ replicate n (CHR ''x'')"

definition sampleEnv :: "bool \<Rightarrow> env" where
  "sampleEnv strict =
     \<lparr>proper404Client = strict,
      isInitializeRequest = initializeShaped,
      randomUUID = sampleUUID,
      inheritedKey = (\<lambda>k. k \<in> set objectPrototypeKeys),
      connectFails = (\<lambda>s t. False),
      stackDepth = 1000,
      transportBehaviour = sampleTransport\<rparr>"

text \<open>Two variations: \<open>server.connect\<close> always rejects; the transport throws on every call.\<close>

definition connectFailsEnv :: env where
  "connectFailsEnv = (sampleEnv False)\<lparr>connectFails := (\<lambda>s t. True)\<rparr>"

definition throwingEnv :: env where
  "throwingEnv =
     (sampleEnv False)\<lparr>transportBehaviour := (\<lambda>tr req pb. \<lparr>events = [], throws = True\<rparr>)\<rparr>"

definition clientInitialize :: json where
  "clientInitialize =
     JObj
       [(''jsonrpc'', JStr ''2.0''),
        (''id'', JNum 0),
        (''method'', JStr ''initialize''),
        (''params'', JObj
           [(''protocolVersion'', JStr ''2025-06-18''),
            (''capabilities'', JObj []),
            (''clientInfo'', JObj [(''name'', JStr ''client''), (''version'', JStr ''0.0.1'')])])]"

definition toolsList :: json where
  "toolsList = JObj [(''jsonrpc'', JStr ''2.0''), (''id'', JNum 2), (''method'', JStr ''tools/list'')]"

definition postRequest :: "string option \<Rightarrow> json \<Rightarrow> request" where
  "postRequest sid b = \<lparr>httpMethod = POST, mcpSessionId = sid, body = b\<rparr>"

definition sessionRequest :: "http_method \<Rightarrow> string option \<Rightarrow> request" where
  "sessionRequest m sid = \<lparr>httpMethod = m, mcpSessionId = sid, body = JObj []\<rparr>"


text \<open>A run with two live sessions, \<open>a\<close> on transport 0 and \<open>b\<close> on transport 1.\<close>

definition twoSessions :: state where
  "twoSessions =
     run (sampleEnv False)
       [Http (postRequest (Some ''a'') clientInitialize), Http (postRequest (Some ''b'') toolsList)]"

section \<open>Frame lemmas\<close>

text \<open>
  What the callbacks leave alone, and what one \<open>handleRequest\<close> call does to the
  delivery log and to the registry.
\<close>

lemma removeSession_frame:
  "handled (removeSession t s) = handled s"
  "nextId (removeSession t s) = nextId s"
  "heap (removeSession t s) = heap s"
  "uuidDraws (removeSession t s) = uuidDraws s"
  "serverTransport (removeSession t s) = serverTransport s"
  "serverCloseCalls (removeSession t s) = serverCloseCalls s"
  "rangeErrors (removeSession t s) = rangeErrors s"
  by (simp_all add: removeSession_def split: option.splits)

lemma removeSession_keeps:
  "streamable (removeSession t s) k = Some u \<Longrightarrow> streamable s k = Some u"
  by (auto simp: removeSession_def split: option.splits if_splits)

lemma removeSession_twice:
  "streamable (removeSession t (removeSession t s)) = streamable (removeSession t s)"
  by (simp add: removeSession_def split: option.splits)

lemma removeSession_counts:
  "removeSession t (s\<lparr>serverCloseCalls := c\<rparr>) = (removeSession t s)\<lparr>serverCloseCalls := c\<rparr>"
  by (simp add: removeSession_def split: option.splits)

lemma onclose_frame:
  "handled (onclose n t s) = handled s \<and> nextId (onclose n t s) = nextId s \<and>
   heap (onclose n t s) = heap s \<and> uuidDraws (onclose n t s) = uuidDraws s"
  by (induction n arbitrary: t s)
     (simp_all add: Let_def removeSession_frame split: option.splits)

lemma closeEvent_frame:
  "handled (closeEvent e t s) = handled s" "nextId (closeEvent e t s) = nextId s"
  "heap (closeEvent e t s) = heap s" "uuidDraws (closeEvent e t s) = uuidDraws s"
  by (simp_all add: closeEvent_def onclose_frame)

lemma fire_handled: "handled (fire e t s ev) = handled s"
  by (cases ev)
     (simp_all add: sessionInitialized_def closeEvent_frame onsessioninitialized_def
        sessionIdGenerator_def Let_def split: option.splits)

lemma fire_nextId: "nextId (fire e t s ev) = nextId s"
  by (cases ev)
     (simp_all add: sessionInitialized_def closeEvent_frame onsessioninitialized_def
        sessionIdGenerator_def Let_def split: option.splits)

lemma foldl_fire_handled: "handled (foldl (fire e t) s evs) = handled s"
  by (induction evs arbitrary: s) (simp_all add: fire_handled)

lemma foldl_fire_nextId: "nextId (foldl (fire e t) s evs) = nextId s"
  by (induction evs arbitrary: s) (simp_all add: fire_nextId)

lemma handleRequest_handled:
  "handled (snd (handleRequest e t req pb s)) = handled s @ [(t, pb)]"
  by (simp add: handleRequest_def Let_def foldl_fire_handled)

lemma handleRequest_nextId: "nextId (snd (handleRequest e t req pb s)) = nextId s"
  by (simp add: handleRequest_def Let_def foldl_fire_nextId)

lemma handleRequest_throws:
  "fst (handleRequest e t req pb s) = throws (transportBehaviour e (heap s t) req pb)"
  by (simp add: handleRequest_def Let_def)

lemma handleRequest_quiet:
  "events (transportBehaviour e (heap s t) req pb) = [] \<Longrightarrow>
   snd (handleRequest e t req pb s) = s\<lparr>handled := handled s @ [(t, pb)]\<rparr>"
  by (simp add: handleRequest_def Let_def)

lemma onclose_keeps:
  "streamable (onclose n t s) k = Some u \<Longrightarrow> streamable s k = Some u"
proof (induction n arbitrary: t s)
  case 0
  then show ?case
    by (auto simp: Let_def split: option.splits dest: removeSession_keeps)
next
  case (Suc n)
  show ?case
  proof (cases "serverTransport s")
    case None
    with Suc.prems show ?thesis
      by (auto simp: Let_def removeSession_frame dest: removeSession_keeps)
  next
    case (Some v)
    with Suc.prems have
      "streamable (onclose n v ((removeSession t s)
         \<lparr>serverCloseCalls := Suc (serverCloseCalls (removeSession t s))\<rparr>)) k = Some u"
      by (simp add: Let_def removeSession_frame)
    then have "streamable (removeSession t s) k = Some u"
      by (auto dest: Suc.IH)
    then show ?thesis by (rule removeSession_keeps)
  qed
qed

lemma closeEvent_keeps:
  "streamable (closeEvent e t s) k = Some u \<Longrightarrow> streamable s k = Some u"
  by (auto simp: closeEvent_def dest: onclose_keeps)

lemma foldl_fire_no_insert:
  "SessionInitialized \<notin> set evs \<Longrightarrow> streamable (foldl (fire e t) s evs) k = Some u \<Longrightarrow>
   streamable s k = Some u"
proof (induction evs arbitrary: s)
  case Nil
  then show ?case by simp
next
  case (Cons ev evs)
  then have "ev = TransportClosed" by (cases ev) simp_all
  with Cons show ?case by (auto dest: closeEvent_keeps)
qed

lemma handleRequest_no_insert:
  "SessionInitialized \<notin> set (events (transportBehaviour e (heap s t) req pb)) \<Longrightarrow>
   streamable (snd (handleRequest e t req pb s)) k = Some u \<Longrightarrow> streamable s k = Some u"
  by (auto simp: handleRequest_def Let_def dest: foldl_fire_no_insert)

lemma setupSession_streamable: "streamable (snd (setupSession e sid s)) = streamable s"
  by (simp add: setupSession_def Let_def)

section \<open>The close callback\<close>

text \<open>
  What one close event does: the entries it deletes, the \<open>server.close()\<close> calls it makes,
  and the stack overflow it ends in whenever the server holds a transport.
\<close>

lemma onclose_disconnected:
  "serverTransport s = None \<Longrightarrow>
   onclose n t s = (removeSession t s)\<lparr>serverCloseCalls := Suc (serverCloseCalls s)\<rparr>"
  by (cases n) (simp_all add: Let_def removeSession_frame)

lemma onclose_own_transport:
  "serverTransport s = Some u \<Longrightarrow> streamable (onclose n u s) = streamable (removeSession u s)"
proof (induction n arbitrary: s)
  case 0
  then show ?case by (simp add: Let_def removeSession_frame)
next
  case (Suc n)
  let ?s2 = "(removeSession u s)\<lparr>serverCloseCalls := Suc (serverCloseCalls (removeSession u s))\<rparr>"
  have "serverTransport ?s2 = Some u" using Suc.prems by (simp add: removeSession_frame)
  then have "streamable (onclose n u ?s2) = streamable (removeSession u ?s2)" by (rule Suc.IH)
  then show ?case
    using Suc.prems
    by (simp add: Let_def removeSession_frame removeSession_counts removeSession_twice)
qed

lemma onclose_nested:
  assumes "serverTransport s = Some u"
  shows "streamable (onclose (Suc n) t s) = streamable (removeSession u (removeSession t s))"
proof -
  let ?s2 = "(removeSession t s)\<lparr>serverCloseCalls := Suc (serverCloseCalls (removeSession t s))\<rparr>"
  have "serverTransport ?s2 = Some u" using assms by (simp add: removeSession_frame)
  then have "streamable (onclose n u ?s2) = streamable (removeSession u ?s2)"
    by (rule onclose_own_transport)
  then show ?thesis
    using assms by (simp add: Let_def removeSession_frame removeSession_counts)
qed




lemma closeEvent_disconnected:
  "serverTransport s = None \<Longrightarrow>
   closeEvent e t s = (removeSession t s)\<lparr>serverCloseCalls := Suc (serverCloseCalls s)\<rparr>"
  by (simp add: closeEvent_def onclose_disconnected removeSession_frame)



lemma closeEvent_streamable:
  assumes "0 < stackDepth e"
  shows "streamable (closeEvent e t s) =
     (case serverTransport s of
        None \<Rightarrow> streamable (removeSession t s)
      | Some u \<Rightarrow> streamable (removeSession u (removeSession t s)))"
proof (cases "serverTransport s")
  case None
  then show ?thesis by (simp add: closeEvent_disconnected)
next
  case (Some u)
  from assms obtain n where "stackDepth e = Suc n" by (cases "stackDepth e") simp_all
  with Some show ?thesis
    by (simp add: closeEvent_def onclose_nested del: onclose.simps)
qed

section \<open>The invariant of runs\<close>

text \<open>Every operation of the module preserves \<open>stateInv\<close>; the initial state has it.\<close>

lemma stateInv_initial: "stateInv initialState"
  by (simp add: stateInv_def initialState_def)

lemma stateInv_removeSession: "stateInv s \<Longrightarrow> stateInv (removeSession t s)"
  by (auto simp: stateInv_def removeSession_def split: option.splits)

lemma stateInv_counters:
  "stateInv (s\<lparr>serverCloseCalls := c\<rparr>) = stateInv s"
  "stateInv (s\<lparr>rangeErrors := r\<rparr>) = stateInv s"
  "stateInv (s\<lparr>serverTransport := v\<rparr>) = stateInv s"
  by (simp_all add: stateInv_def)

lemma stateInv_onclose: "stateInv s \<Longrightarrow> stateInv (onclose n t s)"
  by (induction n arbitrary: t s)
     (simp_all add: Let_def stateInv_counters stateInv_removeSession split: option.splits)

lemma stateInv_closeEvent: "stateInv s \<Longrightarrow> stateInv (closeEvent e t s)"
  by (simp add: closeEvent_def stateInv_counters stateInv_onclose)

lemma generated_nonempty:
  assumes "nonEmptyUUIDs e"
  shows "fst (sessionIdGenerator e sid s) \<noteq> []"
  using assms
  by (simp add: nonEmptyUUIDs_def sessionIdGenerator_def split: option.splits)

lemma sessionInitialized_eq:
  "sessionInitialized e t s =
     (let sid = fst (sessionIdGenerator e (closureSessionId (heap s t)) s);
          s1 = snd (sessionIdGenerator e (closureSessionId (heap s t)) s)
      in s1\<lparr>heap := (heap s1)(t := (heap s1 t)\<lparr>sessionId := Some sid\<rparr>),
             streamable := (streamable s1)(sid \<mapsto> t)\<rparr>)"
  by (simp add: sessionInitialized_def onsessioninitialized_def case_prod_unfold Let_def)

lemma sessionIdGenerator_frame:
  "streamable (snd (sessionIdGenerator e sid s)) = streamable s"
  "heap (snd (sessionIdGenerator e sid s)) = heap s"
  by (simp_all add: sessionIdGenerator_def split: option.splits)

lemma stateInv_sessionInitialized:
  assumes "nonEmptyUUIDs e" and "stateInv s"
  shows "stateInv (sessionInitialized e t s)"
  using assms(2) generated_nonempty [OF assms(1), of "closureSessionId (heap s t)" s]
  by (auto simp: stateInv_def sessionInitialized_eq Let_def sessionIdGenerator_frame)

lemma stateInv_fire: "nonEmptyUUIDs e \<Longrightarrow> stateInv s \<Longrightarrow> stateInv (fire e t s ev)"
  by (cases ev) (simp_all add: stateInv_closeEvent stateInv_sessionInitialized)

lemma stateInv_foldl_fire:
  "nonEmptyUUIDs e \<Longrightarrow> stateInv s \<Longrightarrow> stateInv (foldl (fire e t) s evs)"
  by (induction evs arbitrary: s) (simp_all add: stateInv_fire)

lemma stateInv_handled: "stateInv (s\<lparr>handled := h\<rparr>) = stateInv s"
  by (simp add: stateInv_def)

lemma stateInv_handleRequest:
  "nonEmptyUUIDs e \<Longrightarrow> stateInv s \<Longrightarrow> stateInv (snd (handleRequest e t req pb s))"
  by (simp add: handleRequest_def Let_def stateInv_foldl_fire stateInv_handled)

lemma stateInv_setupSession: "stateInv s \<Longrightarrow> stateInv (snd (setupSession e sid s))"
  by (auto simp: stateInv_def setupSession_def Let_def)

lemma deliver_snd: "snd (deliver e t req pb s) = snd (handleRequest e t req pb s)"
  by (simp add: deliver_def case_prod_unfold)

lemma deliver_fst:
  "fst (deliver e t req pb s) =
     (if throws (transportBehaviour e (heap s t) req pb) then Rejected TransportError
      else Delegated t)"
  by (simp add: deliver_def case_prod_unfold handleRequest_throws)

lemma stateInv_deliver:
  "nonEmptyUUIDs e \<Longrightarrow> stateInv s \<Longrightarrow> stateInv (snd (deliver e t req pb s))"
  by (simp add: deliver_snd stateInv_handleRequest)

lemma stateInv_post:
  "nonEmptyUUIDs e \<Longrightarrow> stateInv s \<Longrightarrow> stateInv (snd (post e req s))"
  by (simp add: post_def Let_def case_prod_unfold stateInv_deliver stateInv_handleRequest
      stateInv_setupSession split: sum.splits jsval.splits option.splits)

lemma stateInv_handleSessionRequest:
  "nonEmptyUUIDs e \<Longrightarrow> stateInv s \<Longrightarrow> stateInv (snd (handleSessionRequest e req s))"
  by (auto simp: handleSessionRequest_def Let_def stateInv_deliver
      split: jsval.splits option.splits)

lemma stateInv_step: "nonEmptyUUIDs e \<Longrightarrow> stateInv s \<Longrightarrow> stateInv (step e s ev)"
  by (cases ev)
     (auto simp: route_def stateInv_post stateInv_handleSessionRequest stateInv_closeEvent
        split: http_method.splits)

lemma stateInv_foldl_step:
  "nonEmptyUUIDs e \<Longrightarrow> stateInv s \<Longrightarrow> stateInv (foldl (step e) s evs)"
  by (induction evs arbitrary: s) (simp_all add: stateInv_step)

lemma stateInv_run: "nonEmptyUUIDs e \<Longrightarrow> stateInv (run e evs)"
  by (simp add: run_def stateInv_foldl_step stateInv_initial)

lemma nonEmptyUUIDs_sampleEnv: "nonEmptyUUIDs (sampleEnv strict)"
  by (simp add: nonEmptyUUIDs_def sampleEnv_def sampleUUID_def)

section \<open>The branches of the handlers\<close>

text \<open>One equation for each path through \<open>app.post\<close> and \<open>handleSessionRequest\<close>.\<close>

lemma lookup_own: "streamable s k = Some t \<Longrightarrow> lookupStreamable e s k = TransportRef t"
  by (simp add: lookupStreamable_def)

lemma lookup_undefined:
  "lookupStreamable e s k = Undefined \<longleftrightarrow> streamable s k = None \<and> \<not> inheritedKey e k"
  by (simp add: lookupStreamable_def split: option.splits)

lemma lookup_inherited:
  "streamable s k = None \<Longrightarrow> inheritedKey e k \<Longrightarrow> lookupStreamable e s k = InheritedValue"
  by (simp add: lookupStreamable_def)

lemma post_reuse:
  "mcpSessionId req = Some k \<Longrightarrow> k \<noteq> [] \<Longrightarrow> streamable s k = Some t \<Longrightarrow>
   post e req s = deliver e t req (Some (body req)) s"
  by (simp add: post_def lookup_own)

lemma post_inherited:
  "mcpSessionId req = Some k \<Longrightarrow> k \<noteq> [] \<Longrightarrow> streamable s k = None \<Longrightarrow> inheritedKey e k \<Longrightarrow>
   post e req s = (Rejected TypeError, s)"
  by (simp add: post_def lookup_inherited)

lemma post_not_found:
  "mcpSessionId req = Some k \<Longrightarrow> k \<noteq> [] \<Longrightarrow> lookupStreamable e s k = Undefined \<Longrightarrow>
   proper404Client e \<Longrightarrow>
   post e req s = (Status404 (''sessionId '' @ k @ '' not found''), s)"
  by (simp add: post_def)

lemma post_bootstrap:
  assumes "bootstraps e req s"
  shows "post e req s =
     (case setupSession e (mcpSessionId req) s of
        (Inl err, s1) \<Rightarrow> (Rejected err, s1)
      | (Inr t, s1) \<Rightarrow>
          if isInitializeRequest e (body req) then deliver e t req (Some (body req)) s1
          else (case handleRequest e t req (Some synthesizedInitialize) s1 of
                  (failed, s2) \<Rightarrow>
                    if failed then (Rejected TransportError, s2)
                    else deliver e t req (Some (body req)) s2))"
  using assms
  by (auto simp: bootstraps_def post_def Let_def split: option.splits sum.splits prod.splits)

lemma setupSession_fresh:
  assumes "setupSession e sid s = (Inr t, s1)"
  shows "t = nextId s" and "heap s1 t = \<lparr>closureSessionId = sid, sessionId = None\<rparr>"
    and "streamable s1 = streamable s" and "handled s1 = handled s"
    and "uuidDraws s1 = uuidDraws s" and "nextId s1 = Suc (nextId s)"
  using assms by (auto simp: setupSession_def Let_def split: if_splits)

lemma setupSession_failed:
  assumes "setupSession e sid s = (Inl err, s1)"
  shows "err = ConnectError" and "streamable s1 = streamable s" and "handled s1 = handled s"
  using assms by (auto simp: setupSession_def Let_def split: if_splits)

lemma generated_identifier:
  "fst (sessionIdGenerator e sid s) =
     (case sid of
        Some k \<Rightarrow> if k \<noteq> [] then k else randomUUID e (uuidDraws s)
      | None \<Rightarrow> randomUUID e (uuidDraws s))"
  by (simp add: sessionIdGenerator_def split: option.splits)


lemma sessionInitialized_streamable:
  "streamable (sessionInitialized e t s) =
     (streamable s)(fst (sessionIdGenerator e (closureSessionId (heap s t)) s) \<mapsto> t)"
  by (simp add: sessionInitialized_eq Let_def sessionIdGenerator_frame)

lemma sessionInitialized_heap:
  "heap (sessionInitialized e t s) =
     (heap s)(t := (heap s t)
        \<lparr>sessionId := Some (fst (sessionIdGenerator e (closureSessionId (heap s t)) s))\<rparr>)"
  by (simp add: sessionInitialized_eq Let_def sessionIdGenerator_frame)

lemma handleSessionRequest_404:
  assumes "mcpSessionId req = None \<or> mcpSessionId req = Some [] \<or>
           (\<exists>k. mcpSessionId req = Some k \<and> streamable s k = None \<and> \<not> inheritedKey e k)"
  shows "handleSessionRequest e req s = (Status404 ''Invalid or missing session ID'', s)"
  using assms by (auto simp: handleSessionRequest_def lookupStreamable_def)

lemma handleSessionRequest_delegates:
  "mcpSessionId req = Some k \<Longrightarrow> k \<noteq> [] \<Longrightarrow> streamable s k = Some t \<Longrightarrow>
   handleSessionRequest e req s = deliver e t req None s"
  by (simp add: handleSessionRequest_def lookup_own)

lemma handleSessionRequest_inherited:
  "mcpSessionId req = Some k \<Longrightarrow> k \<noteq> [] \<Longrightarrow> streamable s k = None \<Longrightarrow> inheritedKey e k \<Longrightarrow>
   handleSessionRequest e req s = (Rejected TypeError, s)"
  by (simp add: handleSessionRequest_def lookup_inherited)

section \<open>Evaluating the concrete environment\<close>

lemmas sample_defs =
  run_def route_def post_def handleSessionRequest_def postRequest_def sessionRequest_def
  sampleEnv_def lookupStreamable_def objectPrototypeKeys_def initialState_def setupSession_def
  deliver_def handleRequest_def sampleTransport_def carriesInitialize_def initializeShaped_def
  clientInitialize_def toolsList_def synthesizedInitialize_def isString_def isObject_def
  sessionInitialized_def sessionIdGenerator_def onsessioninitialized_def closeEvent_def
  sampleUUID_def Let_def

lemma twoSessions_eval:
  "streamable twoSessions ''a'' = Some 0"
  "streamable twoSessions ''b'' = Some (Suc 0)"
  "heap twoSessions 0 = \<lparr>closureSessionId = Some ''a'', sessionId = Some ''a''\<rparr>"
  "heap twoSessions (Suc 0) = \<lparr>closureSessionId = Some ''b'', sessionId = Some ''b''\<rparr>"
  "serverCloseCalls twoSessions = 0"
  "rangeErrors twoSessions = 0"
  "serverTransport twoSessions = Some (Suc 0)"
  "nextId twoSessions = Suc (Suc 0)"
  "handled twoSessions =
     [(0, Some clientInitialize), (Suc 0, Some synthesizedInitialize), (Suc 0, Some toolsList)]"
  by (simp_all add: twoSessions_def sample_defs)

lemma stateInv_twoSessions: "stateInv twoSessions"
  unfolding twoSessions_def by (rule stateInv_run) (rule nonEmptyUUIDs_sampleEnv)

section \<open>Bootstrap: registration, failure\<close>

text \<open>
  The registry after a bootstrapping POST whose transport completes the handshake, and
  the registry after a request during which no handshake completes.
\<close>

lemma card_registry_insert:
  "finite (dom m) \<Longrightarrow> m k = None \<Longrightarrow> card (dom (m(k \<mapsto> t))) = Suc (card (dom m))"
  by (simp add: domIff)


lemma deliver_no_insert:
  "SessionInitialized \<notin> set (events (transportBehaviour e (heap s t) req pb)) \<Longrightarrow>
   streamable (snd (deliver e t req pb s)) k = Some u \<Longrightarrow> streamable s k = Some u"
  unfolding deliver_snd by (rule handleRequest_no_insert)

lemma post_no_insert:
  assumes quiet: "\<And>tr pb. SessionInitialized \<notin> set (events (transportBehaviour e tr req pb))"
    and "streamable (snd (post e req s)) k = Some u"
  shows "streamable s k = Some u"
proof -
  have d: "streamable s0 k = Some u"
    if "streamable (snd (deliver e t req pb s0)) k = Some u" for t pb s0
    using quiet that by (rule deliver_no_insert)
  have h: "streamable s0 k = Some u"
    if "streamable (snd (handleRequest e t req pb s0)) k = Some u" for t pb s0
    using quiet that by (rule handleRequest_no_insert)
  have su: "streamable (snd (setupSession e (mcpSessionId req) s)) = streamable s"
    by (rule setupSession_streamable)
  show ?thesis
    using assms(2) su
    by (auto simp: post_def Let_def case_prod_unfold
        split: if_splits jsval.splits sum.splits dest!: d h)
qed

lemma handleSessionRequest_no_insert:
  assumes quiet: "\<And>tr pb. SessionInitialized \<notin> set (events (transportBehaviour e tr req pb))"
    and "streamable (snd (handleSessionRequest e req s)) k = Some u"
  shows "streamable s k = Some u"
proof -
  have d: "streamable s0 k = Some u"
    if "streamable (snd (deliver e t req pb s0)) k = Some u" for t pb s0
    using quiet that by (rule deliver_no_insert)
  show ?thesis
    using assms(2)
    by (auto simp: handleSessionRequest_def Let_def split: if_splits jsval.splits dest!: d)
qed

lemma route_no_insert:
  assumes "\<And>tr pb. SessionInitialized \<notin> set (events (transportBehaviour e tr req pb))"
    and "streamable (snd (route e req s)) k = Some u"
  shows "streamable s k = Some u"
  using assms post_no_insert [of e req s k u] handleSessionRequest_no_insert [of e req s k u]
  by (auto simp: route_def split: http_method.splits)

lemma post_connect_fails:
  assumes "bootstraps e req s" and "fst (setupSession e (mcpSessionId req) s) = Inl err"
  shows "post e req s = (Rejected err, snd (setupSession e (mcpSessionId req) s))"
  using assms(2) by (simp add: post_bootstrap [OF assms(1)] case_prod_unfold)

lemma post_bootstrap_synthesized:
  assumes "bootstraps e req s" and "\<not> isInitializeRequest e (body req)"
    and "setupSession e (mcpSessionId req) s = (Inr t, s1)"
    and "transportBehaviour e (heap s1 t) req (Some synthesizedInitialize) =
           \<lparr>events = [SessionInitialized], throws = False\<rparr>"
    and "events (transportBehaviour e
           \<lparr>closureSessionId = mcpSessionId req,
            sessionId = Some (fst (sessionIdGenerator e (mcpSessionId req) s))\<rparr>
           req (Some (body req))) = []"
  shows "streamable (snd (post e req s)) =
           (streamable s)(fst (sessionIdGenerator e (mcpSessionId req) s) \<mapsto> t) \<and>
         handled (snd (post e req s)) =
           handled s @ [(t, Some synthesizedInitialize), (t, Some (body req))]"
proof -
  note fresh = setupSession_fresh [OF assms(3)]
  let ?s1' = "s1\<lparr>handled := handled s1 @ [(t, Some synthesizedInitialize)]\<rparr>"
  let ?s2 = "sessionInitialized e t ?s1'"
  have gen: "fst (sessionIdGenerator e (mcpSessionId req) ?s1') =
      fst (sessionIdGenerator e (mcpSessionId req) s)"
    by (simp add: generated_identifier fresh(5) split: option.splits)
  have first: "handleRequest e t req (Some synthesizedInitialize) s1 = (False, ?s2)"
    using assms(4) by (simp add: handleRequest_def Let_def)
  have p: "post e req s = deliver e t req (Some (body req)) ?s2"
    using assms(2,3) first by (simp add: post_bootstrap [OF assms(1)])
  have tr: "heap ?s2 t = \<lparr>closureSessionId = mcpSessionId req,
      sessionId = Some (fst (sessionIdGenerator e (mcpSessionId req) s))\<rparr>"
    by (simp add: sessionInitialized_heap fresh(2) gen)
  have reg: "streamable ?s2 =
      (streamable s)(fst (sessionIdGenerator e (mcpSessionId req) s) \<mapsto> t)"
    by (simp add: sessionInitialized_streamable fresh(2,3) gen)
  have hd: "handled ?s2 = handled s @ [(t, Some synthesizedInitialize)]"
    using handleRequest_handled [of e t req "Some synthesizedInitialize" s1] first
    by (simp add: fresh(4))
  have second: "snd (deliver e t req (Some (body req)) ?s2) =
      ?s2\<lparr>handled := handled ?s2 @ [(t, Some (body req))]\<rparr>"
    unfolding deliver_snd
    by (rule handleRequest_quiet) (simp only: tr assms(5))
  show ?thesis
    by (simp only: p second) (simp add: reg hd)
qed

lemma post_bootstrap_synthesized_size:
  assumes "bootstraps e req s" and "\<not> isInitializeRequest e (body req)"
    and "setupSession e (mcpSessionId req) s = (Inr t, s1)"
    and "transportBehaviour e (heap s1 t) req (Some synthesizedInitialize) =
           \<lparr>events = [SessionInitialized], throws = False\<rparr>"
    and "events (transportBehaviour e
           \<lparr>closureSessionId = mcpSessionId req,
            sessionId = Some (fst (sessionIdGenerator e (mcpSessionId req) s))\<rparr>
           req (Some (body req))) = []"
    and "finite (dom (streamable s))"
    and "streamable s (fst (sessionIdGenerator e (mcpSessionId req) s)) = None"
  shows "card (dom (streamable (snd (post e req s)))) = Suc (card (dom (streamable s)))"
proof -
  have "streamable (snd (post e req s)) =
      (streamable s)(fst (sessionIdGenerator e (mcpSessionId req) s) \<mapsto> t)"
    using post_bootstrap_synthesized [OF assms(1-5)] by (rule conjunct1)
  then show ?thesis
    using assms(6,7) by (simp only: card_registry_insert)
qed

lemma fire_closure:
  "closureSessionId (heap (fire e t s ev) u) = closureSessionId (heap s u)"
  by (cases ev)
     (simp_all add: sessionInitialized_eq Let_def sessionIdGenerator_frame closeEvent_frame)

lemma foldl_fire_closure:
  "closureSessionId (heap (foldl (fire e t) s evs) u) = closureSessionId (heap s u)"
  by (induction evs arbitrary: s) (simp_all add: fire_closure)

lemma handleRequest_closure:
  "closureSessionId (heap (snd (handleRequest e t req pb s)) u) = closureSessionId (heap s u)"
  by (simp add: handleRequest_def Let_def foldl_fire_closure)

lemma setupSession_cases:
  "fst (setupSession e sid s) = Inr (nextId s) \<or> fst (setupSession e sid s) = Inl ConnectError"
  by (simp add: setupSession_def Let_def)

lemma setupSession_constructs:
  "nextId (snd (setupSession e sid s)) = Suc (nextId s)"
  "heap (snd (setupSession e sid s)) (nextId s) = \<lparr>closureSessionId = sid, sessionId = None\<rparr>"
  "handled (snd (setupSession e sid s)) = handled s"
  by (simp_all add: setupSession_def Let_def)



section \<open>Reading the echo resource\<close>

lemma matchEchoTemplate_message:
  "message \<noteq> [] \<Longrightarrow> CHR ''/'' \<notin> set message \<Longrightarrow> CHR '','' \<notin> set message \<Longrightarrow>
   matchEchoTemplate (''echo://'' @ message) = Some message"
  by (simp add: matchEchoTemplate_def)
section \<open>The claims\<close>

text \<open>
  C1, as stated: under lenient mode every POST whose session identifier is not in the
  registry is preceded by a synthesized initialize request, whatever its payload. The
  code tests the payload first (line 130): with the identifier \<open>abc\<close> and an initialize
  payload the only call is the delivery of the payload itself.
\<close>

theorem lenient_unmatched_identifier_counterexample:
  "\<not> proper404Client (sampleEnv False) \<and>
   mcpSessionId (postRequest (Some ''abc'') clientInitialize) = Some ''abc'' \<and>
   streamable initialState ''abc'' = None \<and>
   isInitializeRequest (sampleEnv False) (body (postRequest (Some ''abc'') clientInitialize)) \<and>
   handled (snd (post (sampleEnv False) (postRequest (Some ''abc'') clientInitialize) initialState)) =
     [(0, Some clientInitialize)]"
  by (simp add: sample_defs)

text \<open>
  C1, amended: a POST in lenient mode whose session identifier \<open>transports.streamable\<close>
  resolves neither as an own entry nor as an inherited name, or which carries no
  identifier, goes through Bootstrap: \<open>app.post\<close> is \<open>setupSession\<close> called with the
  header's value, which constructs exactly one transport whose closures hold that value,
  followed by the deliveries. When the payload is an initialize request it is the only
  delivery, with or without a supplied identifier; otherwise the synthesized initialize
  request is handed to the new transport first and the payload afterwards, unless that
  first call throws. When \<open>server.connect\<close> rejects, nothing is delivered.
\<close>

theorem lenient_unmatched_identifier:
  assumes "\<not> proper404Client e"
    and "case mcpSessionId req of
           None \<Rightarrow> True
         | Some k \<Rightarrow> streamable s k = None \<and> \<not> inheritedKey e k"
  shows "post e req s =
           (case setupSession e (mcpSessionId req) s of
              (Inl err, s1) \<Rightarrow> (Rejected err, s1)
            | (Inr t, s1) \<Rightarrow>
                if isInitializeRequest e (body req) then deliver e t req (Some (body req)) s1
                else (case handleRequest e t req (Some synthesizedInitialize) s1 of
                        (failed, s2) \<Rightarrow>
                          if failed then (Rejected TransportError, s2)
                          else deliver e t req (Some (body req)) s2)) \<and>
         nextId (snd (post e req s)) = Suc (nextId s) \<and>
         closureSessionId (heap (snd (post e req s)) (nextId s)) = mcpSessionId req \<and>
         (fst (setupSession e (mcpSessionId req) s) = Inr (nextId s) \<and>
          isInitializeRequest e (body req) \<longrightarrow>
            handled (snd (post e req s)) = handled s @ [(nextId s, Some (body req))]) \<and>
         (fst (setupSession e (mcpSessionId req) s) = Inr (nextId s) \<and>
          \<not> isInitializeRequest e (body req) \<longrightarrow>
            handled (snd (post e req s)) =
              handled s @ (nextId s, Some synthesizedInitialize) #
                (if throws (transportBehaviour e
                      \<lparr>closureSessionId = mcpSessionId req, sessionId = None\<rparr>
                      req (Some synthesizedInitialize))
                 then [] else [(nextId s, Some (body req))]))"
proof -
  let ?sid = "mcpSessionId req"
  let ?s1 = "snd (setupSession e ?sid s)"
  let ?t = "nextId s"
  have b: "bootstraps e req s"
    using assms by (simp add: bootstraps_def lookup_undefined split: option.splits)
  note eq = post_bootstrap [OF b]
  note made = setupSession_constructs [of e ?sid s]
  have counter: "nextId (snd (post e req s)) = Suc (nextId s)"
    using setupSession_cases [of e ?sid s] made(1)
    by (auto simp: eq case_prod_unfold deliver_snd handleRequest_nextId)
  have closure: "closureSessionId (heap (snd (post e req s)) ?t) = ?sid"
    using setupSession_cases [of e ?sid s] made(2)
    by (auto simp: eq case_prod_unfold deliver_snd handleRequest_closure)
  have direct: "handled (snd (post e req s)) = handled s @ [(?t, Some (body req))]"
    if "fst (setupSession e ?sid s) = Inr ?t" "isInitializeRequest e (body req)"
    using that made(3)
    by (simp add: eq case_prod_unfold deliver_snd handleRequest_handled)
  have synth: "handled (snd (post e req s)) =
      handled s @ (?t, Some synthesizedInitialize) #
        (if throws (transportBehaviour e \<lparr>closureSessionId = ?sid, sessionId = None\<rparr>
              req (Some synthesizedInitialize))
         then [] else [(?t, Some (body req))])"
    if "fst (setupSession e ?sid s) = Inr ?t" "\<not> isInitializeRequest e (body req)"
    using that made(2,3)
      handleRequest_throws [of e ?t req "Some synthesizedInitialize" ?s1]
      handleRequest_handled [of e ?t req "Some synthesizedInitialize" ?s1]
    by (simp add: eq case_prod_unfold deliver_snd handleRequest_handled)
  show ?thesis
    using eq counter closure direct synth by blast
qed

theorem lenient_unmatched_identifier_witness:
  "\<not> proper404Client (sampleEnv False) \<and> streamable initialState ''abc'' = None \<and>
   \<not> inheritedKey (sampleEnv False) ''abc'' \<and>
   isInitializeRequest (sampleEnv False) clientInitialize \<and>
   \<not> isInitializeRequest (sampleEnv False) toolsList \<and>
   handled (snd (post (sampleEnv False) (postRequest (Some ''abc'') clientInitialize) initialState)) =
     [(0, Some clientInitialize)] \<and>
   nextId (snd (post (sampleEnv False) (postRequest (Some ''abc'') clientInitialize) initialState)) =
     Suc 0 \<and>
   closureSessionId (heap (snd (post (sampleEnv False) (postRequest (Some ''abc'') clientInitialize)
     initialState)) 0) = Some ''abc'' \<and>
   handled (snd (post (sampleEnv False) (postRequest (Some ''abc'') toolsList) initialState)) =
     [(0, Some synthesizedInitialize), (0, Some toolsList)] \<and>
   handled (snd (post (sampleEnv False) (postRequest None clientInitialize) initialState)) =
     [(0, Some clientInitialize)] \<and>
   handled (snd (post (sampleEnv False) (postRequest None toolsList) initialState)) =
     [(0, Some synthesizedInitialize), (0, Some toolsList)]"
proof -
  let ?e = "sampleEnv False"
  have lenient: "\<not> proper404Client ?e" by (simp add: sampleEnv_def)
  have absent: "streamable initialState ''abc'' = None" by (simp add: initialState_def)
  have plain: "\<not> inheritedKey ?e ''abc''" by (simp add: sampleEnv_def objectPrototypeKeys_def)
  have i1: "isInitializeRequest ?e clientInitialize" by (simp add: sample_defs)
  have i2: "\<not> isInitializeRequest ?e toolsList" by (simp add: sample_defs)
  have first: "nextId initialState = 0" "handled initialState = []"
    by (simp_all add: initialState_def)
  have su: "fst (setupSession ?e sid initialState) = Inr (nextId initialState)" for sid
    by (simp add: setupSession_def sampleEnv_def initialState_def Let_def)
  have quiet: "\<not> throws (transportBehaviour ?e tr (postRequest sid toolsList)
      (Some synthesizedInitialize))" for tr sid
    by (simp add: sampleEnv_def sampleTransport_def postRequest_def)
  have u: "case mcpSessionId (postRequest (Some ''abc'') b) of
        None \<Rightarrow> True
      | Some k \<Rightarrow> streamable initialState k = None \<and> \<not> inheritedKey ?e k" for b
    using absent plain by (simp add: postRequest_def)
  have n: "case mcpSessionId (postRequest None b) of
        None \<Rightarrow> True
      | Some k \<Rightarrow> streamable initialState k = None \<and> \<not> inheritedKey ?e k" for b
    by (simp add: postRequest_def)
  note a = lenient_unmatched_identifier [OF lenient u, of clientInitialize, THEN conjunct2]
  note b = lenient_unmatched_identifier [OF lenient u, of toolsList, THEN conjunct2]
  note c = lenient_unmatched_identifier [OF lenient n, of clientInitialize, THEN conjunct2]
  note d = lenient_unmatched_identifier [OF lenient n, of toolsList, THEN conjunct2]
  have fields: "body (postRequest sid x) = x" "mcpSessionId (postRequest sid x) = sid" for sid x
    by (simp_all add: postRequest_def)
  show ?thesis
    using a b c d lenient absent plain i1 i2 su quiet
    by (simp add: fields first)
qed

text \<open>
  C2, as stated: in strict mode every POST whose session header is present and has no
  registry entry is answered 404 without creating a transport. The tests of lines 121
  and 126 are truthiness tests, and the empty string is falsy: a header that is present
  with an empty value is handled as if it were absent, so a transport is set up and a
  session registered under a generated identifier.
\<close>

theorem strict_unmatched_identifier_counterexample:
  "proper404Client (sampleEnv True) \<and>
   mcpSessionId (postRequest (Some []) toolsList) = Some [] \<and>
   streamable initialState [] = None \<and>
   fst (post (sampleEnv True) (postRequest (Some []) toolsList) initialState) = Delegated 0 \<and>
   nextId initialState = 0 \<and>
   nextId (snd (post (sampleEnv True) (postRequest (Some []) toolsList) initialState)) = 1 \<and>
   streamable (snd (post (sampleEnv True) (postRequest (Some []) toolsList) initialState))
     ''uuid-'' = Some 0"
  by (simp add: sample_defs)

text \<open>
  C2, amended: in strict mode a POST whose session header is a non-empty identifier that
  \<open>transports.streamable\<close> resolves neither as an own entry nor as an inherited name is
  answered 404 with body \<open>sessionId <id> not found\<close>; no transport is created and the
  state, the registry included, is unchanged.
\<close>

theorem strict_unmatched_identifier:
  assumes "proper404Client e" and "mcpSessionId req = Some k" and "k \<noteq> []"
    and "streamable s k = None" and "\<not> inheritedKey e k"
  shows "post e req s = (Status404 (''sessionId '' @ k @ '' not found''), s)"
  using assms by (simp add: post_not_found lookup_undefined)

theorem strict_unmatched_identifier_witness:
  "proper404Client (sampleEnv True) \<and>
   mcpSessionId (postRequest (Some ''abc'') toolsList) = Some ''abc'' \<and>
   streamable initialState ''abc'' = None \<and> \<not> inheritedKey (sampleEnv True) ''abc'' \<and>
   post (sampleEnv True) (postRequest (Some ''abc'') toolsList) initialState =
     (Status404 ''sessionId abc not found'', initialState)"
proof -
  have strict: "proper404Client (sampleEnv True)" by (simp add: sampleEnv_def)
  have hdr: "mcpSessionId (postRequest (Some ''abc'') toolsList) = Some ''abc''"
    by (simp add: postRequest_def)
  have absent: "streamable initialState ''abc'' = None" by (simp add: initialState_def)
  have plain: "\<not> inheritedKey (sampleEnv True) ''abc''"
    by (simp add: sampleEnv_def objectPrototypeKeys_def)
  show ?thesis
    using strict_unmatched_identifier [OF strict hdr _ absent plain] strict hdr absent plain
    by simp
qed

text \<open>
  C3: GET and DELETE answer 404 with body \<open>Invalid or missing session ID\<close> when the
  session header is missing or matches no registry entry. Lemma
  \<open>handleSessionRequest_404\<close> shows this for a missing or empty header and for every
  identifier that is not the name of an inherited property, and
  \<open>handleSessionRequest_delegates\<close> shows the delegation to the matched transport. For
  the identifier \<open>constructor\<close>, which has no registry entry, the read of line 195
  yields the inherited \<open>Object\<close> function: the guard passes, line 202 calls a method
  that does not exist, and the handler rejects with a TypeError instead of answering
  404.
\<close>

theorem session_request_inherited_name:
  "streamable initialState ''constructor'' = None \<and>
   handleSessionRequest (sampleEnv False) (sessionRequest GET (Some ''constructor'')) initialState =
     (Rejected TypeError, initialState) \<and>
   handleSessionRequest (sampleEnv False) (sessionRequest DELETE (Some ''constructor'')) initialState =
     (Rejected TypeError, initialState)"
  by (simp add: sample_defs)

theorem session_request_inherited_name_witness:
  "fst (handleSessionRequest (sampleEnv False) (sessionRequest GET (Some ''constructor''))
     initialState) \<noteq> Status404 ''Invalid or missing session ID'' \<and>
   fst (handleSessionRequest (sampleEnv False) (sessionRequest DELETE (Some ''constructor''))
     initialState) \<noteq> Status404 ''Invalid or missing session ID''"
  using session_request_inherited_name by simp



text \<open>
  C5: a POST whose session header matches a registry entry is handed, with its payload,
  to the transport registered under that identifier; no transport is constructed, and
  when the library invokes no callback during that call the registry and the transports
  are as before.
\<close>

theorem reuse_registered_transport:
  assumes "stateInv s" and "mcpSessionId req = Some k" and "streamable s k = Some t"
  shows "post e req s = deliver e t req (Some (body req)) s \<and>
         handled (snd (post e req s)) = handled s @ [(t, Some (body req))] \<and>
         nextId (snd (post e req s)) = nextId s \<and>
         (events (transportBehaviour e (heap s t) req (Some (body req))) = [] \<longrightarrow>
            streamable (snd (post e req s)) = streamable s \<and>
            heap (snd (post e req s)) = heap s \<and>
            card (dom (streamable (snd (post e req s)))) = card (dom (streamable s)))"
proof -
  from assms(1,3) have "k \<noteq> []" by (auto simp: stateInv_def)
  then have p: "post e req s = deliver e t req (Some (body req)) s"
    using assms(2,3) by (simp add: post_reuse)
  show ?thesis
    by (simp add: p deliver_snd handleRequest_handled handleRequest_nextId handleRequest_quiet)
qed

theorem reuse_registered_transport_witness:
  "stateInv twoSessions \<and> streamable twoSessions ''a'' = Some 0 \<and>
   events (transportBehaviour (sampleEnv False) (heap twoSessions 0)
     (postRequest (Some ''a'') toolsList) (Some toolsList)) = [] \<and>
   fst (post (sampleEnv False) (postRequest (Some ''a'') toolsList) twoSessions) = Delegated 0 \<and>
   handled (snd (post (sampleEnv False) (postRequest (Some ''a'') toolsList) twoSessions)) =
     handled twoSessions @ [(0, Some toolsList)] \<and>
   nextId (snd (post (sampleEnv False) (postRequest (Some ''a'') toolsList) twoSessions)) =
     nextId twoSessions \<and>
   streamable (snd (post (sampleEnv False) (postRequest (Some ''a'') toolsList) twoSessions)) =
     streamable twoSessions"
proof -
  let ?e = "sampleEnv False"
  let ?req = "postRequest (Some ''a'') toolsList"
  have hdr: "mcpSessionId ?req = Some ''a''"
    by (simp add: postRequest_def)
  have quiet: "events (transportBehaviour ?e (heap twoSessions 0) ?req (Some toolsList)) = []"
    by (simp add: twoSessions_eval sampleEnv_def sampleTransport_def postRequest_def)
  have ok: "\<not> throws (transportBehaviour ?e (heap twoSessions 0) ?req (Some toolsList))"
    by (simp add: twoSessions_eval sampleEnv_def sampleTransport_def postRequest_def)
  have b: "body ?req = toolsList" by (simp add: postRequest_def)
  note r = reuse_registered_transport [OF stateInv_twoSessions hdr twoSessions_eval(1), of ?e]
  have "fst (post ?e ?req twoSessions) = fst (deliver ?e 0 ?req (Some (body ?req)) twoSessions)"
    using r by simp
  then have f: "fst (post ?e ?req twoSessions) = Delegated 0"
    using ok by (simp add: deliver_fst b)
  have rest: "handled (snd (post ?e ?req twoSessions)) = handled twoSessions @ [(0, Some toolsList)] \<and>
      nextId (snd (post ?e ?req twoSessions)) = nextId twoSessions \<and>
      streamable (snd (post ?e ?req twoSessions)) = streamable twoSessions"
    using r [THEN conjunct2] quiet by (simp add: b)
  show ?thesis
    using stateInv_twoSessions twoSessions_eval(1) quiet f rest by blast
qed

text \<open>
  C6: a POST in lenient mode with no matching registry entry and a payload that is not
  an initialize request sets up a new transport, hands it the synthesized initialize
  request and then the payload. Lemma \<open>post_bootstrap_synthesized\<close> shows this, with the
  new registry entry, for a missing or empty header and for every unmatched identifier
  that is not the name of an inherited property. With the identifier \<open>constructor\<close>,
  which has no registry entry, line 121 reads the inherited \<open>Object\<close> function and takes
  the reuse branch: nothing is set up, nothing is delivered, and line 181 rejects with a
  TypeError.
\<close>

theorem synthesized_bootstrap_inherited_name:
  "\<not> proper404Client (sampleEnv False) \<and>
   streamable initialState ''constructor'' = None \<and>
   \<not> isInitializeRequest (sampleEnv False) toolsList \<and>
   post (sampleEnv False) (postRequest (Some ''constructor'') toolsList) initialState =
     (Rejected TypeError, initialState)"
  by (simp add: sample_defs)




text \<open>
  C8: \<open>setupSession\<close> itself never writes the registry; when \<open>server.connect\<close> rejects,
  the request is rejected with the registry and the delivery log as before; when the
  library completes no handshake during a request, the registry gains no entry and
  changes none; and the one write, in \<open>onsessioninitialized\<close>, makes the transport
  reachable under the identifier at once.
\<close>

theorem registry_insert_only_by_callback:
  "streamable (snd (setupSession e sid s)) = streamable s \<and>
   (bootstraps e req s \<and> fst (setupSession e (mcpSessionId req) s) = Inl ConnectError \<longrightarrow>
      fst (post e req s) = Rejected ConnectError \<and>
      streamable (snd (post e req s)) = streamable s \<and>
      handled (snd (post e req s)) = handled s) \<and>
   ((\<forall>tr pb. SessionInitialized \<notin> set (events (transportBehaviour e tr req pb))) \<longrightarrow>
      (\<forall>k u. streamable (snd (route e req s)) k = Some u \<longrightarrow> streamable s k = Some u)) \<and>
   lookupStreamable e (onsessioninitialized t k s) k = TransportRef t"
proof -
  have failed: "fst (post e req s) = Rejected ConnectError \<and>
      streamable (snd (post e req s)) = streamable s \<and>
      handled (snd (post e req s)) = handled s"
    if "bootstraps e req s" "fst (setupSession e (mcpSessionId req) s) = Inl ConnectError"
    using setupSession_failed [of e "mcpSessionId req" s ConnectError
        "snd (setupSession e (mcpSessionId req) s)"] that(2)
    by (simp add: post_connect_fails [OF that] prod_eq_iff)
  have quiet: "streamable s k' = Some u"
    if "\<forall>tr pb. SessionInitialized \<notin> set (events (transportBehaviour e tr req pb))"
      "streamable (snd (route e req s)) k' = Some u" for k' u
    using that by (auto intro: route_no_insert)
  have reg: "lookupStreamable e (onsessioninitialized t k s) k = TransportRef t"
    by (simp add: lookupStreamable_def onsessioninitialized_def)
  show ?thesis
    using failed quiet reg by (simp add: setupSession_streamable)
qed

theorem registry_insert_only_by_callback_witness:
  "bootstraps connectFailsEnv (postRequest (Some ''abc'') toolsList) initialState \<and>
   fst (setupSession connectFailsEnv (mcpSessionId (postRequest (Some ''abc'') toolsList))
     initialState) = Inl ConnectError \<and>
   fst (post connectFailsEnv (postRequest (Some ''abc'') toolsList) initialState) =
     Rejected ConnectError \<and>
   streamable (snd (post connectFailsEnv (postRequest (Some ''abc'') toolsList) initialState)) =
     streamable initialState \<and>
   fst (route throwingEnv (postRequest (Some ''abc'') toolsList) initialState) =
     Rejected TransportError \<and>
   streamable (snd (route throwingEnv (postRequest (Some ''abc'') toolsList) initialState))
     ''abc'' = None"
proof -
  let ?req = "postRequest (Some ''abc'') toolsList"
  have b: "bootstraps connectFailsEnv ?req initialState"
    by (simp add: bootstraps_def connectFailsEnv_def sample_defs)
  have f: "fst (setupSession connectFailsEnv (mcpSessionId ?req) initialState) = Inl ConnectError"
    by (simp add: setupSession_def connectFailsEnv_def Let_def)
  note r1 = registry_insert_only_by_callback [of connectFailsEnv None initialState ?req 0 "[]",
      THEN conjunct2, THEN conjunct1, rule_format]
  have one: "fst (post connectFailsEnv ?req initialState) = Rejected ConnectError \<and>
      streamable (snd (post connectFailsEnv ?req initialState)) = streamable initialState"
    using r1 b f by blast
  have q: "\<forall>tr pb. SessionInitialized \<notin> set (events (transportBehaviour throwingEnv tr ?req pb))"
    by (simp add: throwingEnv_def)
  note r2 = registry_insert_only_by_callback [of throwingEnv None initialState ?req 0 "[]",
      THEN conjunct2, THEN conjunct2, THEN conjunct1, rule_format]
  have "streamable (snd (route throwingEnv ?req initialState)) ''abc'' = Some u \<Longrightarrow>
      streamable initialState ''abc'' = Some u" for u
    using r2 q by blast
  then have two: "streamable (snd (route throwingEnv ?req initialState)) ''abc'' = None"
    by (cases "streamable (snd (route throwingEnv ?req initialState)) ''abc''")
       (simp_all add: initialState_def)
  have three: "fst (route throwingEnv ?req initialState) = Rejected TransportError"
    by (simp add: throwingEnv_def sample_defs)
  show ?thesis
    using b f one two three by blast
qed

text \<open>
  C9, as stated: reading \<open>echo://<message>\<close> returns \<open>Resource echo: <message>\<close> for every
  string. The template variable stands for one or more characters other than \<open>/\<close> and
  \<open>,\<close>: for the messages \<open>a/b\<close>, \<open>a,b\<close> and the empty string the URI matches no resource
  and the callback never runs.
\<close>

theorem echo_round_trip_counterexample:
  "readResource Some (''echo://'' @ ''a/b'') = Inl ResourceNotFound \<and>
   readResource Some (''echo://'' @ '''') = Inl ResourceNotFound \<and>
   readResource Some (''echo://'' @ ''a,b'') = Inl ResourceNotFound"
  by (simp add: readResource_def matchEchoTemplate_def)

text \<open>
  C9, amended: for every message the echo tool answers one text item
  \<open>Tool echo: <message>\<close>; reading \<open>echo://<message>\<close> answers one item with that URI and
  the text \<open>Resource echo: <message>\<close> for every message that is not empty, contains
  neither \<open>/\<close> nor \<open>,\<close> and whose URI the URL parser returns as written. For \<open>hello\<close>
  these are \<open>Tool echo: hello\<close> and \<open>Resource echo: hello\<close>.
\<close>

theorem echo_round_trip:
  "echoTool message = [\<lparr>contentType = ''text'', contentText = ''Tool echo: '' @ message\<rparr>] \<and>
   (message \<noteq> [] \<and> CHR ''/'' \<notin> set message \<and> CHR '','' \<notin> set message \<and>
    parseUrl (''echo://'' @ message) = Some (''echo://'' @ message) \<longrightarrow>
      readResource parseUrl (''echo://'' @ message) =
        Inr [\<lparr>contentUri = ''echo://'' @ message,
              resourceText = ''Resource echo: '' @ message\<rparr>])"
proof (intro conjI impI)
  show "echoTool message =
      [\<lparr>contentType = ''text'', contentText = ''Tool echo: '' @ message\<rparr>]"
    by (simp add: echoTool_def)
next
  assume h: "message \<noteq> [] \<and> CHR ''/'' \<notin> set message \<and> CHR '','' \<notin> set message \<and>
    parseUrl (''echo://'' @ message) = Some (''echo://'' @ message)"
  then have m: "matchEchoTemplate (''echo://'' @ message) = Some message"
    by (intro matchEchoTemplate_message) simp_all
  from h have p: "parseUrl (''echo://'' @ message) = Some (''echo://'' @ message)"
    by (elim conjE)
  show "readResource parseUrl (''echo://'' @ message) =
      Inr [\<lparr>contentUri = ''echo://'' @ message,
            resourceText = ''Resource echo: '' @ message\<rparr>]"
    using p m by (simp add: readResource_def echoResource_def)
qed

theorem echo_round_trip_witness:
  "echoTool ''hello'' = [\<lparr>contentType = ''text'', contentText = ''Tool echo: hello''\<rparr>] \<and>
   readResource Some ''echo://hello'' =
     Inr [\<lparr>contentUri = ''echo://hello'', resourceText = ''Resource echo: hello''\<rparr>]"
  using echo_round_trip [of "''hello''" Some] by simp



end
